theory Spec2Isabelle
  imports Complex_Main "HOL-Library.Multiset"
begin

section \<open>Data model\<close>

text \<open>
  Identifiers are MongoDB ObjectIds; the handlers compare them through their string
  rendering (\<^verbatim>\<open>match.donor.toString() === donorId\<close>), which is injective, so an
  identifier is modelled by a natural number and the comparison by equality.
  A JavaScript \<^verbatim>\<open>Date\<close> is its number of milliseconds since the epoch.
\<close>

type_synonym object_id = nat
type_synonym date = int

text \<open>
  An HTTP reply: \<^verbatim>\<open>res.status(c).json({ message: m })\<close> for a refusal,
  \<^verbatim>\<open>res.status(c).json({ errors: ms })\<close> for a rejected body, and the status code
  with the payload for an answer.
\<close>

datatype 'a response = Error nat string | Errors nat "string list" | Json nat 'a

text \<open>The sub-documents of \<^verbatim>\<open>matchedDonors\<close> (models/BloodRequest.js, lines 51-67).\<close>

record matched_donor =
  donor :: object_id
  md_status :: string
  matchedAt :: date
  respondedAt :: "date option"
  md_notes :: "string option"

text \<open>
  The \<^verbatim>\<open>BloodRequest\<close> schema (models/BloodRequest.js, lines 3-86). Of the hospital
  descriptor the name and the coordinates are kept; its address and contact, and the
  timestamps Mongoose adds, are read by no handler modelled here. String-valued fields
  with an \<^verbatim>\<open>enum\<close> stay strings: the handlers assign them before validation runs.
\<close>

record blood_request =
  patient :: object_id
  bloodType :: string
  urgency :: string
  hospital_name :: string
  hospital_coordinates :: "real list"
  status :: string
  matchedDonors :: "matched_donor list"
  requiredUnits :: int
  description :: "string option"
  medicalNotes :: "string option"
  completedAt :: "date option"
  cancelledAt :: "date option"
  cancellationReason :: "string option"

text \<open>
  The \<^verbatim>\<open>User\<close> schema (second half of server.js, lines 73-153). The location
  is the GeoJSON point \<^verbatim>\<open>[longitude, latitude]\<close>; each medical-history entry is
  abbreviated to its condition text; address, emergency contact, avatar and timestamps
  are left out.
\<close>

record user =
  uid :: object_id
  name :: string
  email :: string
  password :: string
  phone :: string
  userType :: string
  user_bloodType :: "string option"
  location :: "(real \<times> real) option"
  isVerified :: bool
  lastDonationDate :: "date option"
  isAvailable :: bool
  medicalHistory :: "string list"

text \<open>
  The \<^verbatim>\<open>Notification\<close> schema (models/Notification.js), with the fields the
  response handler sets (a \<^verbatim>\<open>data.status\<close> it also passes is not in the schema
  and is dropped).
\<close>

record notification =
  recipient :: object_id
  ntype :: string
  title :: string
  message :: string
  data_requestId :: "object_id option"
  data_donorId :: "object_id option"
  priority :: string

text \<open>
  The persisted collections. Requests are looked up by identifier only; the user
  collection is a list of documents because the donor search returns them in order.
\<close>

record db =
  requests :: "object_id \<rightharpoonup> blood_request"
  users :: "user list"
  notifications :: "notification list"

section \<open>Compatibility table\<close>

text \<open>
  Both copies of \<^verbatim>\<open>getCompatibleBloodTypes\<close> index an object literal:
  \<^verbatim>\<open>return compatibility[bloodType] || [];\<close>
  Property lookup on an object literal also finds the members inherited from
  \<^verbatim>\<open>Object.prototype\<close>, all of which are truthy (functions, or the prototype
  object itself for \<^verbatim>\<open>__proto__\<close>), so for those keys the \<^verbatim>\<open>|| []\<close>
  default does not apply and the inherited member is returned.
\<close>

datatype lookup_result = Types "string list" | Inherited string

definition compatibility :: "(string \<times> string list) list" where
  "compatibility =
    [(''A+'', [''A+'', ''A-'', ''O+'', ''O-'']),
     (''A-'', [''A-'', ''O-'']),
     (''B+'', [''B+'', ''B-'', ''O+'', ''O-'']),
     (''B-'', [''B-'', ''O-'']),
     (''AB+'', [''A+'', ''A-'', ''B+'', ''B-'', ''AB+'', ''AB-'', ''O+'', ''O-'']),
     (''AB-'', [''A-'', ''B-'', ''AB-'', ''O-'']),
     (''O+'', [''O+'', ''O-'']),
     (''O-'', [''O-''])]"

definition object_prototype_members :: "string list" where
  "object_prototype_members =
    [''constructor'', ''__defineGetter__'', ''__defineSetter__'', ''hasOwnProperty'',
     ''__lookupGetter__'', ''__lookupSetter__'', ''isPrototypeOf'',
     ''propertyIsEnumerable'', ''toString'', ''valueOf'', ''__proto__'',
     ''toLocaleString'']"

text \<open>routes/donors.js, lines 190-203.\<close>

definition getCompatibleBloodTypes :: "string \<Rightarrow> lookup_result" where
  "getCompatibleBloodTypes bt =
    (case map_of compatibility bt of
       Some ts \<Rightarrow> Types ts
     | None \<Rightarrow> if bt \<in> set object_prototype_members then Inherited bt else Types [])"

text \<open>
  models/BloodRequest.js, lines 98-111: the method reads \<^verbatim>\<open>this.bloodType\<close>; its
  table is a second literal with the same entries.
\<close>

definition request_compatibility :: "(string \<times> string list) list" where
  "request_compatibility =
    [(''A+'', [''A+'', ''A-'', ''O+'', ''O-'']),
     (''A-'', [''A-'', ''O-'']),
     (''B+'', [''B+'', ''B-'', ''O+'', ''O-'']),
     (''B-'', [''B-'', ''O-'']),
     (''AB+'', [''A+'', ''A-'', ''B+'', ''B-'', ''AB+'', ''AB-'', ''O+'', ''O-'']),
     (''AB-'', [''A-'', ''B-'', ''AB-'', ''O-'']),
     (''O+'', [''O+'', ''O-'']),
     (''O-'', [''O-''])]"

definition request_getCompatibleBloodTypes :: "blood_request \<Rightarrow> lookup_result" where
  "request_getCompatibleBloodTypes r =
    (case map_of request_compatibility (bloodType r) of
       Some ts \<Rightarrow> Types ts
     | None \<Rightarrow>
         if bloodType r \<in> set object_prototype_members then Inherited (bloodType r)
         else Types [])"

text \<open>The eight canonical types and the table of section 4.1 of the specification.\<close>

definition canonical_types :: "string list" where
  "canonical_types = [''A+'', ''A-'', ''B+'', ''B-'', ''AB+'', ''AB-'', ''O+'', ''O-'']"


section \<open>Eligibility\<close>

text \<open>
  \<^verbatim>\<open>isEligibleToDonate\<close> (server.js, lines 177-189), with \<^verbatim>\<open>Date.now()\<close> passed
  in. A stored \<^verbatim>\<open>Date\<close> object is truthy whatever its value, \<^verbatim>\<open>null\<close> is
  not. The quotient is taken in the reals; the source's double-precision quotient of
  two integral millisecond counts compares with 56 in the same way.
\<close>

definition daysSinceLastDonation :: "date \<Rightarrow> date \<Rightarrow> real" where
  "daysSinceLastDonation now t = real_of_int (now - t) / (1000 * 60 * 60 * 24)"

definition isEligibleToDonate :: "date \<Rightarrow> user \<Rightarrow> bool" where
  "isEligibleToDonate now u =
    (if userType u \<noteq> ''donor'' then False
     else if \<not> isAvailable u then False
     else if \<not> isVerified u then False
     else (case lastDonationDate u of
             Some t \<Rightarrow> if daysSinceLastDonation now t < 56 then False else True
           | None \<Rightarrow> True))"

section \<open>Request lifecycle\<close>

subsection \<open>Schema validation run by \<^verbatim>\<open>save()\<close>\<close>

definition donor_status_enum :: "string list" where
  "donor_status_enum = [''pending'', ''accepted'', ''declined'', ''completed'']"

definition notification_type_enum :: "string list" where
  "notification_type_enum =
    [''blood_request'', ''donor_match'', ''request_update'', ''donation_reminder'',
     ''system_alert'']"

definition notification_priority_enum :: "string list" where
  "notification_priority_enum = [''low'', ''medium'', ''high'', ''urgent'']"

text \<open>
  \<^verbatim>\<open>notification.save()\<close> validates the document against its schema (required
  title and message, enumerated type and priority) and then writes it; \<open>sink\<close> says
  whether the notification store accepts the write.
\<close>

definition notification_valid :: "notification \<Rightarrow> bool" where
  "notification_valid n =
    (ntype n \<in> set notification_type_enum \<and> title n \<noteq> [] \<and> message n \<noteq> [] \<and>
     priority n \<in> set notification_priority_enum)"

definition notification_save :: "bool \<Rightarrow> notification \<Rightarrow> db \<Rightarrow> db option" where
  "notification_save sink n st =
    (if notification_valid n \<and> sink
     then Some (st\<lparr>notifications := notifications st @ [n]\<rparr>)
     else None)"

subsection \<open>RecordDonorResponse: \<^verbatim>\<open>POST /:id/respond\<close> (routes/requests.js, lines 71-144)\<close>

text \<open>
  \<^verbatim>\<open>Array.prototype.find\<close> yields the first entry of the donor, which the handler
  then mutates in place.
\<close>

fun update_first :: "('a \<Rightarrow> bool) \<Rightarrow> ('a \<Rightarrow> 'a) \<Rightarrow> 'a list \<Rightarrow> 'a list" where
  "update_first P f [] = []"
| "update_first P f (x # xs) = (if P x then f x # xs else x # update_first P f xs)"

definition record_response ::
  "date \<Rightarrow> object_id \<Rightarrow> string \<Rightarrow> string option \<Rightarrow> matched_donor list \<Rightarrow> matched_donor list"
where
  "record_response now donorId st nts ms =
    (case find (\<lambda>match. donor match = donorId) ms of
       Some existingMatch \<Rightarrow>
         update_first (\<lambda>match. donor match = donorId)
           (\<lambda>match. match\<lparr>md_status := st, respondedAt := Some now, md_notes := nts\<rparr>) ms
     | None \<Rightarrow>
         ms @ [\<lparr>donor = donorId, md_status = st, matchedAt = now,
                respondedAt = Some now, md_notes = nts\<rparr>])"

definition donor_response_notification ::
  "object_id \<Rightarrow> blood_request \<Rightarrow> object_id \<Rightarrow> string \<Rightarrow> notification"
where
  "donor_response_notification requestId request donorId st =
    \<lparr>recipient = patient request, ntype = ''donor_response'', title = ''Donor Response'',
     message = ''A donor has '' @ st @ '' your blood request'',
     data_requestId = Some requestId, data_donorId = Some donorId,
     priority = (if st = ''accepted'' then ''high'' else ''medium'')\<rparr>"

text \<open>Lines 93-116: the entry is recorded, then an acceptance moves an active request on.\<close>

definition apply_response ::
  "date \<Rightarrow> object_id \<Rightarrow> string \<Rightarrow> string option \<Rightarrow> blood_request \<Rightarrow> blood_request"
where
  "apply_response now donorId st_in nts request =
    (let request1 = request\<lparr>matchedDonors :=
            record_response now donorId st_in nts (matchedDonors request)\<rparr>
     in if st_in = ''accepted'' \<and> status request1 = ''active''
        then request1\<lparr>status := ''matched''\<rparr> else request1)"

text \<open>
  The handler declares validators for \<^verbatim>\<open>status\<close> and \<^verbatim>\<open>notes\<close> but never reads
  \<^verbatim>\<open>validationResult\<close>, so any status string reaches the body; one outside the
  schema's enumeration is rejected by \<^verbatim>\<open>request.save()\<close>, which lands in the
  \<^verbatim>\<open>catch\<close> block before anything is written. The request store is taken to
  accept valid writes.
\<close>

definition respond ::
  "bool \<Rightarrow> date \<Rightarrow> db \<Rightarrow> object_id \<Rightarrow> object_id option \<Rightarrow> string \<Rightarrow> string option
    \<Rightarrow> blood_request response \<times> db"
where
  "respond sink now st requestId user_opt st_in nts =
    (case user_opt of
       None \<Rightarrow> (Error 401 ''Authentication required'', st)
     | Some donorId \<Rightarrow>
        (case requests st requestId of
           None \<Rightarrow> (Error 404 ''Request not found'', st)
         | Some request \<Rightarrow>
            if status request \<noteq> ''active'' \<and> status request \<noteq> ''matched''
            then (Error 400 ''Request is no longer active'', st)
            else
              let request2 = apply_response now donorId st_in nts request
              in if st_in \<notin> set donor_status_enum then (Error 500 ''Server error'', st)
                 else
                   let st1 = st\<lparr>requests := (requests st)(requestId \<mapsto> request2)\<rparr>
                   in (case notification_save sink
                              (donor_response_notification requestId request2 donorId st_in) st1 of
                         None \<Rightarrow> (Error 500 ''Server error'', st1)
                       | Some st2 \<Rightarrow> (Json 200 request2, st2))))"

subsection \<open>CompleteRequest: \<^verbatim>\<open>POST /:id/complete\<close> (routes/requests.js, lines 147-201)\<close>

text \<open>\<^verbatim>\<open>User.findByIdAndUpdate\<close>: the document with that identifier, if any, is updated.\<close>

definition findByIdAndUpdate :: "object_id \<Rightarrow> (user \<Rightarrow> user) \<Rightarrow> user list \<Rightarrow> user list" where
  "findByIdAndUpdate i f us = update_first (\<lambda>u. uid u = i) f us"

definition complete ::
  "date \<Rightarrow> db \<Rightarrow> object_id \<Rightarrow> object_id option \<Rightarrow> blood_request response \<times> db"
where
  "complete now st requestId user_opt =
    (case user_opt of
       None \<Rightarrow> (Error 401 ''Authentication required'', st)
     | Some userId \<Rightarrow>
        (case requests st requestId of
           None \<Rightarrow> (Error 404 ''Request not found'', st)
         | Some request \<Rightarrow>
            let isPatient = (patient request = userId);
                isAcceptedDonor = list_ex
                  (\<lambda>match. donor match = userId \<and> md_status match = ''accepted'')
                  (matchedDonors request)
            in if \<not> isPatient \<and> \<not> isAcceptedDonor
               then (Error 403 ''Not authorized to complete this request'', st)
               else if status request \<noteq> ''matched''
               then (Error 400 ''Request is not in matched status'', st)
               else
                 let request1 = request\<lparr>status := ''completed'', completedAt := Some now\<rparr>;
                     acceptedDonor = find (\<lambda>match. md_status match = ''accepted'')
                                       (matchedDonors request1);
                     users1 = (case acceptedDonor of
                                 Some m \<Rightarrow> findByIdAndUpdate (donor m)
                                   (\<lambda>u. u\<lparr>lastDonationDate := Some now, isAvailable := False\<rparr>)
                                   (users st)
                               | None \<Rightarrow> users st)
                 in (Json 200 request1,
                     st\<lparr>users := users1, requests := (requests st)(requestId \<mapsto> request1)\<rparr>)))"

subsection \<open>CancelRequest: \<^verbatim>\<open>PUT /requests/:id/cancel\<close> (routes/patients.js, lines 148-182)\<close>

text \<open>
  One \<^verbatim>\<open>findOneAndUpdate\<close> whose filter joins the identifier, the owner and the
  status; when no document matches, the handler cannot tell which condition failed.
\<close>

definition cancel ::
  "date \<Rightarrow> db \<Rightarrow> object_id \<Rightarrow> object_id option \<Rightarrow> string option
    \<Rightarrow> blood_request response \<times> db"
where
  "cancel now st requestId user_opt reason =
    (case user_opt of
       None \<Rightarrow> (Error 401 ''Authentication required'', st)
     | Some userId \<Rightarrow>
        (case (case requests st requestId of
                 None \<Rightarrow> None
               | Some r \<Rightarrow>
                   if patient r = userId \<and> status r \<in> set [''active'', ''matched'']
                   then Some (r\<lparr>status := ''cancelled'', cancelledAt := Some now,
                                cancellationReason := reason\<rparr>)
                   else None) of
           None \<Rightarrow> (Error 404 ''Request not found or cannot be cancelled'', st)
         | Some request \<Rightarrow>
             (Json 200 request, st\<lparr>requests := (requests st)(requestId \<mapsto> request)\<rparr>)))"

subsection \<open>CreateRequest: \<^verbatim>\<open>POST /request\<close> (routes/patients.js, lines 9-60)\<close>

record create_body =
  body_bloodType :: string
  body_urgency :: string
  body_hospital_name :: string
  body_coordinates :: "real list"
  body_requiredUnits :: "int option"
  body_description :: "string option"
  body_medicalNotes :: "string option"

definition urgency_enum :: "string list" where
  "urgency_enum = [''low'', ''medium'', ''high'', ''critical'']"

text \<open>The validator chain of the route, in its order; this handler does read the result.\<close>

definition validationResult :: "create_body \<Rightarrow> string list" where
  "validationResult b =
    (if body_bloodType b \<in> set canonical_types then [] else [''Invalid blood type'']) @
    (if body_urgency b \<in> set urgency_enum then [] else [''Invalid urgency level'']) @
    (if body_hospital_name b \<noteq> [] then [] else [''Hospital name is required'']) @
    (if length (body_coordinates b) = 2 then [] else [''Hospital coordinates are required'']) @
    (case body_requiredUnits b of
       None \<Rightarrow> []
     | Some n \<Rightarrow> if 1 \<le> n then [] else [''Required units must be at least 1''])"

text \<open>
  The schema bounds the two free-text fields, which the route does not validate; a
  longer text makes \<^verbatim>\<open>bloodRequest.save()\<close> throw. The identifier of the new
  document is generated by the driver and passed in as \<open>newId\<close>.
\<close>

definition create ::
  "db \<Rightarrow> object_id \<Rightarrow> object_id option \<Rightarrow> create_body \<Rightarrow> blood_request response \<times> db"
where
  "create st newId user_opt b =
    (if validationResult b \<noteq> [] then (Errors 400 (validationResult b), st)
     else
       (case user_opt of
          None \<Rightarrow> (Error 401 ''Authentication required'', st)
        | Some userId \<Rightarrow>
           let bloodRequest =
                 \<lparr>patient = userId, bloodType = body_bloodType b, urgency = body_urgency b,
                  hospital_name = body_hospital_name b,
                  hospital_coordinates = body_coordinates b,
                  status = ''active'', matchedDonors = [],
                  requiredUnits = (case body_requiredUnits b of None \<Rightarrow> 1 | Some n \<Rightarrow> n),
                  description = body_description b, medicalNotes = body_medicalNotes b,
                  completedAt = None, cancelledAt = None, cancellationReason = None\<rparr>
           in if (case description bloodRequest of None \<Rightarrow> False | Some d \<Rightarrow> 500 < length d)
                 \<or> (case medicalNotes bloodRequest of None \<Rightarrow> False | Some d \<Rightarrow> 1000 < length d)
              then (Error 500 ''Server error'', st)
              else (Json 201 bloodRequest,
                    st\<lparr>requests := (requests st)(newId \<mapsto> bloodRequest)\<rparr>)))"

section \<open>Donor search: \<^verbatim>\<open>GET /available\<close> (routes/donors.js, lines 11-56)\<close>

text \<open>A document as the handler sends it: field names with JSON values.\<close>

datatype jsval =
  JNull | JBool bool | JNum real | JStr string | JDate int | JId nat
  | JArr "jsval list" | JObj "(string \<times> jsval) list"

definition toObject :: "user \<Rightarrow> (string \<times> jsval) list" where
  "toObject u =
    [(''_id'', JId (uid u)), (''name'', JStr (name u)), (''email'', JStr (email u)),
     (''password'', JStr (password u)), (''phone'', JStr (phone u)),
     (''userType'', JStr (userType u))] @
    (case user_bloodType u of None \<Rightarrow> [] | Some b \<Rightarrow> [(''bloodType'', JStr b)]) @
    (case location u of
       None \<Rightarrow> []
     | Some (lng, lat) \<Rightarrow>
         [(''location'', JObj [(''type'', JStr ''Point''),
                              (''coordinates'', JArr [JNum lng, JNum lat])])]) @
    [(''isVerified'', JBool (isVerified u)),
     (''lastDonationDate'', (case lastDonationDate u of None \<Rightarrow> JNull | Some t \<Rightarrow> JDate t)),
     (''isAvailable'', JBool (isAvailable u)),
     (''medicalHistory'', JArr (map JStr (medicalHistory u)))]"

text \<open>\<^verbatim>\<open>.select('-password -medicalHistory')\<close>: the named paths are not loaded.\<close>

definition select_excluding :: "string list \<Rightarrow> (string \<times> jsval) list \<Rightarrow> (string \<times> jsval) list" where
  "select_excluding paths doc = filter (\<lambda>kv. fst kv \<notin> set paths) doc"

text \<open>\<^verbatim>\<open>{ ...donor.toObject(), distance: ... }\<close>\<close>

record found_donor =
  donor_doc :: "(string \<times> jsval) list"
  distance :: real

text \<open>
  The two distance measures are those of the database (\<^verbatim>\<open>$near\<close> on the 2dsphere
  index, in metres) and of \<^verbatim>\<open>geolib.getDistance\<close> (whole metres); both are
  parameters. The query keeps the documents that satisfy its field conditions and lie
  within \<^verbatim>\<open>$maxDistance\<close>, nearest first; documents without a location are not in
  the index. Each retrieved document is paired with its location.
\<close>

definition blood_type_condition :: "string list option \<Rightarrow> user \<Rightarrow> bool" where
  "blood_type_condition flt u =
    (case flt of
       Some ts \<Rightarrow> (case user_bloodType u of None \<Rightarrow> False | Some b \<Rightarrow> b \<in> set ts)
     | None \<Rightarrow> user_bloodType u \<noteq> None)"

definition near_candidates ::
  "(real \<times> real \<Rightarrow> real \<times> real \<Rightarrow> real) \<Rightarrow> string list option \<Rightarrow> real \<times> real \<Rightarrow> real
    \<Rightarrow> user list \<Rightarrow> (user \<times> real \<times> real) list"
where
  "near_candidates geo flt origin maxDistance us =
    concat (map (\<lambda>u.
      (case location u of
         None \<Rightarrow> []
       | Some p \<Rightarrow>
           if userType u = ''donor'' \<and> isAvailable u \<and> isVerified u \<and>
              blood_type_condition flt u \<and> geo origin p \<le> maxDistance
           then [(u, p)] else [])) us)"

definition near_query ::
  "(real \<times> real \<Rightarrow> real \<times> real \<Rightarrow> real) \<Rightarrow> string list option \<Rightarrow> real \<times> real \<Rightarrow> real
    \<Rightarrow> user list \<Rightarrow> (user \<times> real \<times> real) list"
where
  "near_query geo flt origin maxDistance us =
    sort_key (\<lambda>up. geo origin (snd up)) (near_candidates geo flt origin maxDistance us)"

text \<open>\<^verbatim>\<open>Math.round(distance / 1000 * 10) / 10\<close>, on the reals.\<close>

definition rounded_km :: "nat \<Rightarrow> real" where
  "rounded_km d = real_of_int (round (real d / 1000 * 10)) / 10"

text \<open>
  The query parameters arrive as numbers where the handler reads numbers. \<open>lat_q\<close>
  and \<open>lng_q\<close> are \<open>None\<close> when the parameter is absent or empty (either is falsy
  in \<^verbatim>\<open>!lat || !lng\<close>) and the number \<^verbatim>\<open>parseFloat\<close> reads otherwise.
  \<open>radius_q\<close> is \<open>None\<close> only when the parameter is absent, where the default 50 of
  the destructuring applies; an empty \<^verbatim>\<open>radius=\<close> is the number 0
  (\<^verbatim>\<open>'' * 1000\<close>), that is \<open>Some 0\<close>. \<open>bloodType_q\<close> is \<open>None\<close> when the
  parameter is absent; the empty string is falsy too and takes the \<^verbatim>\<open>$exists\<close>
  branch.

  What the database makes of a query it may refuse is a parameter. When the lookup
  hands \<^verbatim>\<open>$in\<close> an inherited member in place of a list, \<open>castIn\<close> gives the list
  it queries with, or \<open>None\<close> when it throws. \<open>acceptsNear origin maxDistance\<close> says
  whether it runs the \<^verbatim>\<open>$near\<close> query with that origin and \<^verbatim>\<open>$maxDistance\<close>
  (a point outside the coordinate ranges, for one, makes it throw). Whatever is thrown
  lands in the handler's \<^verbatim>\<open>catch\<close>, which answers 500.
  \<^verbatim>\<open>Array.prototype.sort\<close> is stable, as \<open>sort_key\<close> is.
\<close>

definition available ::
  "(string \<Rightarrow> string list option) \<Rightarrow> (real \<times> real \<Rightarrow> real \<Rightarrow> bool)
    \<Rightarrow> (real \<times> real \<Rightarrow> real \<times> real \<Rightarrow> real)
    \<Rightarrow> (real \<times> real \<Rightarrow> real \<times> real \<Rightarrow> nat) \<Rightarrow> date \<Rightarrow> db
    \<Rightarrow> string option \<Rightarrow> real option \<Rightarrow> real option \<Rightarrow> real option
    \<Rightarrow> found_donor list response"
where
  "available castIn acceptsNear geo getDistance now st bloodType_q lat_q lng_q radius_q =
    (case (lat_q, lng_q) of
       (Some lat, Some lng) \<Rightarrow>
         let radius = (case radius_q of None \<Rightarrow> 50 | Some r \<Rightarrow> r);
             condition =
               (case bloodType_q of
                  None \<Rightarrow> Some None
                | Some bt \<Rightarrow>
                    if bt = [] then Some None
                    else (case getCompatibleBloodTypes bt of
                            Types ts \<Rightarrow> Some (Some ts)
                          | Inherited m \<Rightarrow> map_option Some (castIn m)))
         in (case condition of
               None \<Rightarrow> Error 500 ''Server error''
             | Some flt \<Rightarrow>
                 if \<not> acceptsNear (lng, lat) (radius * 1000) then Error 500 ''Server error''
                 else
                   let donors = near_query geo flt (lng, lat) (radius * 1000) (users st);
                       eligibleDonors =
                         sort_key distance
                           (map (\<lambda>(donor, p).
                                   \<lparr>donor_doc = select_excluding [''password'', ''medicalHistory'']
                                                 (toObject donor),
                                    distance = rounded_km (getDistance (lng, lat) p)\<rparr>)
                              (filter (\<lambda>(donor, p). isEligibleToDonate now donor) donors))
                   in Json 200 eligibleDonors)
     | _ \<Rightarrow> Error 400 ''Latitude and longitude are required'')"

section \<open>Properties of the specification, as predicates\<close>

text \<open>
  The invariant of the data model: a matched request has an accepted entry.
\<close>

definition matched_has_accepted :: "blood_request \<Rightarrow> bool" where
  "matched_has_accepted r =
     (status r = ''matched'' \<longrightarrow> list_ex (\<lambda>m. md_status m = ''accepted'') (matchedDonors r))"

definition matched_invariant :: "db \<Rightarrow> bool" where
  "matched_invariant st = (\<forall>rid r. requests st rid = Some r \<longrightarrow> matched_has_accepted r)"






section \<open>Sample data\<close>

text \<open>
  A donor, a request body, and the stores obtained from them by running the handlers:
  the patient 10 creates request 1, donor 20 accepts it, and then declines.
\<close>

definition sample_donor :: user where
  "sample_donor =
    \<lparr>uid = 20, name = ''Dana'', email = ''dana@example.org'', password = ''hash'',
     phone = ''555'', userType = ''donor'', user_bloodType = Some ''O-'',
     location = Some (0, 0), isVerified = True, lastDonationDate = None,
     isAvailable = True, medicalHistory = [''asthma'']\<rparr>"

definition sample_body :: create_body where
  "sample_body =
    \<lparr>body_bloodType = ''O-'', body_urgency = ''critical'', body_hospital_name = ''General'',
     body_coordinates = [0, 0], body_requiredUnits = None, body_description = None,
     body_medicalNotes = None\<rparr>"

definition sample_request :: blood_request where
  "sample_request =
    \<lparr>patient = 10, bloodType = ''O-'', urgency = ''critical'', hospital_name = ''General'',
     hospital_coordinates = [0, 0], status = ''active'', matchedDonors = [],
     requiredUnits = 1, description = None, medicalNotes = None, completedAt = None,
     cancelledAt = None, cancellationReason = None\<rparr>"

definition sample_entry :: matched_donor where
  "sample_entry =
    \<lparr>donor = 20, md_status = ''accepted'', matchedAt = 1000, respondedAt = Some 1000,
     md_notes = None\<rparr>"

definition db0 :: db where
  "db0 = \<lparr>requests = Map.empty, users = [sample_donor], notifications = []\<rparr>"

definition db_created :: db where
  "db_created = snd (create db0 1 (Some 10) sample_body)"

definition db_accepted :: db where
  "db_accepted = snd (respond True 1000 db_created 1 (Some 20) ''accepted'' None)"

definition db_declined :: db where
  "db_declined = snd (respond True 2000 db_accepted 1 (Some 20) ''declined'' None)"

definition db_cancelled :: db where
  "db_cancelled = snd (cancel 1500 db_created 1 (Some 10) (Some ''recovered''))"

definition db_completed :: db where
  "db_completed = snd (complete 3000 db_accepted 1 (Some 20))"

definition db_two_accepted :: db where
  "db_two_accepted = snd (respond True 1100 db_accepted 1 (Some 21) ''accepted'' None)"






section \<open>The sample stores, evaluated\<close>

lemmas sample_defs =
  sample_donor_def sample_body_def sample_request_def sample_entry_def db0_def

lemmas respond_defs =
  respond_def apply_response_def record_response_def donor_status_enum_def
  notification_save_def notification_valid_def donor_response_notification_def
  notification_type_enum_def Let_def

lemma db_created_eq: "db_created = db0\<lparr>requests := [1 \<mapsto> sample_request]\<rparr>"
  by (simp add: db_created_def sample_defs create_def validationResult_def
        canonical_types_def urgency_enum_def Let_def)

lemma db_accepted_eq:
  "db_accepted =
     db0\<lparr>requests := [1 \<mapsto> sample_request\<lparr>status := ''matched'',
                                             matchedDonors := [sample_entry]\<rparr>]\<rparr>"
  unfolding db_accepted_def db_created_eq
  by (simp add: sample_defs respond_defs)

lemma db_declined_eq:
  "db_declined =
     db0\<lparr>requests := [1 \<mapsto> sample_request\<lparr>status := ''matched'',
        matchedDonors := [sample_entry\<lparr>md_status := ''declined'', respondedAt := Some 2000\<rparr>]\<rparr>]\<rparr>"
  unfolding db_declined_def db_accepted_eq
  by (simp add: sample_defs respond_defs)

lemma db_cancelled_eq:
  "db_cancelled =
     db0\<lparr>requests := [1 \<mapsto> sample_request\<lparr>status := ''cancelled'',
        cancelledAt := Some 1500, cancellationReason := Some ''recovered''\<rparr>]\<rparr>"
  unfolding db_cancelled_def db_created_eq
  by (simp add: sample_defs cancel_def)

lemma db_completed_eq:
  "db_completed =
     \<lparr>requests = [1 \<mapsto> sample_request\<lparr>status := ''completed'',
        matchedDonors := [sample_entry], completedAt := Some 3000\<rparr>],
      users = [sample_donor\<lparr>lastDonationDate := Some 3000, isAvailable := False\<rparr>],
      notifications = []\<rparr>"
  unfolding db_completed_def db_accepted_eq
  by (simp add: sample_defs complete_def findByIdAndUpdate_def Let_def)

lemma db_two_accepted_eq:
  "db_two_accepted =
     db0\<lparr>requests := [1 \<mapsto> sample_request\<lparr>status := ''matched'',
        matchedDonors := [sample_entry,
          \<lparr>donor = 21, md_status = ''accepted'', matchedAt = 1100, respondedAt = Some 1100,
           md_notes = None\<rparr>]\<rparr>]\<rparr>"
  unfolding db_two_accepted_def db_accepted_eq
  by (simp add: sample_defs respond_defs)

section \<open>Compatibility table: properties\<close>


lemma compatible_types_AB_pos:
  "getCompatibleBloodTypes ''AB+'' = Types canonical_types"
  by (simp add: canonical_types_def getCompatibleBloodTypes_def compatibility_def)

lemma compatible_types_unknown:
  assumes "bt \<notin> set canonical_types" and "bt \<notin> set object_prototype_members"
  shows "getCompatibleBloodTypes bt = Types []"
    and "request_getCompatibleBloodTypes (r\<lparr>bloodType := bt\<rparr>) = Types []"
  using assms
  by (auto simp add: canonical_types_def getCompatibleBloodTypes_def compatibility_def
        request_getCompatibleBloodTypes_def request_compatibility_def)

text \<open>
  C8. The claim: for each of the eight canonical recipient types both copies of
  CompatibleDonorTypes return the row of the table, and every unknown input yields the
  empty set rather than an error. The rows are as claimed (\<open>compatible_types_table\<close>),
  but the unknown input \<^verbatim>\<open>constructor\<close> is answered, by both copies, with the member
  that the table object inherits, not with the empty list.
\<close>

theorem getCompatibleBloodTypes_inherited_member:
  "''constructor'' \<notin> set canonical_types \<and>
   getCompatibleBloodTypes ''constructor'' = Inherited ''constructor'' \<and>
   getCompatibleBloodTypes ''constructor'' \<noteq> Types [] \<and>
   request_getCompatibleBloodTypes (r\<lparr>bloodType := ''constructor''\<rparr>) =
     Inherited ''constructor'' \<and>
   request_getCompatibleBloodTypes (r\<lparr>bloodType := ''constructor''\<rparr>) \<noteq> Types []"
  by (simp add: canonical_types_def getCompatibleBloodTypes_def compatibility_def
        request_getCompatibleBloodTypes_def request_compatibility_def
        object_prototype_members_def)

section \<open>Eligibility: properties\<close>

text \<open>
  C9. A donor is eligible exactly when the role is donor, the donor is available and
  verified, and either no donation is recorded or at least 56 days (in milliseconds)
  have passed since the last one; so a donation 30 days ago excludes, one 60 days ago
  or none does not, and an unverified donor is never eligible.
\<close>

theorem isEligibleToDonate_iff:
  "(isEligibleToDonate now u \<longleftrightarrow>
      userType u = ''donor'' \<and> isAvailable u \<and> isVerified u \<and>
      (lastDonationDate u = None \<or>
       (\<exists>t. lastDonationDate u = Some t \<and> 56 * (24 * 60 * 60 * 1000) \<le> now - t))) \<and>
   (lastDonationDate u = Some (now - 30 * (24 * 60 * 60 * 1000)) \<longrightarrow>
      \<not> isEligibleToDonate now u) \<and>
   (userType u = ''donor'' \<and> isAvailable u \<and> isVerified u \<and>
    (lastDonationDate u = Some (now - 60 * (24 * 60 * 60 * 1000)) \<or> lastDonationDate u = None)
      \<longrightarrow> isEligibleToDonate now u) \<and>
   (\<not> isVerified u \<longrightarrow> \<not> isEligibleToDonate now u)"
  by (auto simp add: isEligibleToDonate_def daysSinceLastDonation_def split: option.splits)

theorem isEligibleToDonate_iff_witness:
  "isEligibleToDonate 6000000000 sample_donor \<and>
   isEligibleToDonate 6000000000 (sample_donor\<lparr>lastDonationDate := Some 816000000\<rparr>) \<and>
   \<not> isEligibleToDonate 6000000000 (sample_donor\<lparr>lastDonationDate := Some 3408000000\<rparr>) \<and>
   \<not> isEligibleToDonate 6000000000 (sample_donor\<lparr>isVerified := False\<rparr>)"
  using isEligibleToDonate_iff [of 6000000000 sample_donor]
    isEligibleToDonate_iff [of 6000000000 "sample_donor\<lparr>lastDonationDate := Some 816000000\<rparr>"]
    isEligibleToDonate_iff [of 6000000000 "sample_donor\<lparr>lastDonationDate := Some 3408000000\<rparr>"]
    isEligibleToDonate_iff [of 6000000000 "sample_donor\<lparr>isVerified := False\<rparr>"]
  by (simp add: sample_donor_def)

section \<open>RecordDonorResponse: properties\<close>

lemma respond_saved:
  assumes "requests st rid = Some r" "status r = ''active'' \<or> status r = ''matched''"
    "s \<in> set donor_status_enum"
  shows "requests (snd (respond sink now st rid (Some d) s n)) =
           (requests st)(rid \<mapsto> apply_response now d s n r)"
    and "users (snd (respond sink now st rid (Some d) s n)) = users st"
  using assms
  by (auto simp add: respond_def Let_def notification_save_def split: option.splits)

lemma respond_rejected:
  assumes "requests st rid = Some r" "s \<notin> set donor_status_enum"
  shows "snd (respond sink now st rid (Some d) s n) = st"
  using assms by (auto simp add: respond_def Let_def split: option.splits)

lemma status_apply_response:
  "status (apply_response now d s n r) =
     (if s = ''accepted'' \<and> status r = ''active'' then ''matched'' else status r)"
  by (simp add: apply_response_def Let_def)

text \<open>
  The notification the handler builds has the type \<^verbatim>\<open>donor_response\<close>, which is
  not among the types the schema enumerates, so its \<^verbatim>\<open>save()\<close> is rejected whatever
  the store does, and the handler never reaches its success reply.
\<close>

lemma donor_response_notification_invalid:
  "\<not> notification_valid (donor_response_notification rid r d s)"
  by (simp add: notification_valid_def donor_response_notification_def
        notification_type_enum_def)

lemma respond_never_succeeds: "fst (respond sink now st rid u s n) \<noteq> Json c r"
  by (auto simp add: respond_def notification_save_def donor_response_notification_invalid
        Let_def split: option.splits)

text \<open>
  C4. RecordDonorResponse answers 404 (NotFound) when the request is absent and 400
  (InvalidState) when its status is neither active nor matched, in particular when it
  is cancelled; an accepted response on an active request leaves the stored request
  matched; in every other case the stored request keeps its status.
\<close>

theorem respond_transitions:
  "(requests st rid = None \<longrightarrow>
      respond sink now st rid (Some d) s n = (Error 404 ''Request not found'', st)) \<and>
   (requests st rid = Some r \<and> status r \<noteq> ''active'' \<and> status r \<noteq> ''matched'' \<longrightarrow>
      respond sink now st rid (Some d) s n = (Error 400 ''Request is no longer active'', st)) \<and>
   (requests st rid = Some r \<and> status r = ''cancelled'' \<longrightarrow>
      respond sink now st rid (Some d) s n = (Error 400 ''Request is no longer active'', st)) \<and>
   (requests st rid = Some r \<and> status r = ''active'' \<and> s = ''accepted'' \<longrightarrow>
      (\<exists>r'. requests (snd (respond sink now st rid (Some d) s n)) rid = Some r' \<and>
            status r' = ''matched'')) \<and>
   (requests st rid = Some r \<and> \<not> (status r = ''active'' \<and> s = ''accepted'') \<longrightarrow>
      (\<exists>r'. requests (snd (respond sink now st rid (Some d) s n)) rid = Some r' \<and>
            status r' = status r))"
proof (intro conjI impI)
  assume "requests st rid = None"
  then show "respond sink now st rid (Some d) s n = (Error 404 ''Request not found'', st)"
    by (simp add: respond_def)
next
  assume "requests st rid = Some r \<and> status r \<noteq> ''active'' \<and> status r \<noteq> ''matched''"
  then show "respond sink now st rid (Some d) s n = (Error 400 ''Request is no longer active'', st)"
    by (simp add: respond_def)
next
  assume "requests st rid = Some r \<and> status r = ''cancelled''"
  then show "respond sink now st rid (Some d) s n = (Error 400 ''Request is no longer active'', st)"
    by (simp add: respond_def)
next
  assume a: "requests st rid = Some r \<and> status r = ''active'' \<and> s = ''accepted''"
  then have "s \<in> set donor_status_enum" by (simp add: donor_status_enum_def)
  with a show "\<exists>r'. requests (snd (respond sink now st rid (Some d) s n)) rid = Some r' \<and>
            status r' = ''matched''"
    by (simp add: respond_saved status_apply_response)
next
  assume a: "requests st rid = Some r \<and> \<not> (status r = ''active'' \<and> s = ''accepted'')"
  show "\<exists>r'. requests (snd (respond sink now st rid (Some d) s n)) rid = Some r' \<and>
            status r' = status r"
  proof (cases "s \<in> set donor_status_enum \<and> (status r = ''active'' \<or> status r = ''matched'')")
    case True
    with a show ?thesis by (auto simp add: respond_saved status_apply_response)
  next
    case False
    with a show ?thesis by (auto simp add: respond_def Let_def)
  qed
qed


theorem respond_transitions_witness:
  "respond True 1000 db_created 2 (Some 20) ''accepted'' None =
     (Error 404 ''Request not found'', db_created) \<and>
   respond True 1000 db_cancelled 1 (Some 20) ''accepted'' None =
     (Error 400 ''Request is no longer active'', db_cancelled) \<and>
   (\<exists>r'. requests (snd (respond True 1000 db_created 1 (Some 20) ''accepted'' None)) 1 = Some r' \<and>
         status r' = ''matched'') \<and>
   (\<exists>r'. requests (snd (respond True 1000 db_created 1 (Some 20) ''declined'' None)) 1 = Some r' \<and>
         status r' = ''active'')"
proof -
  have absent: "requests db_created 2 = None"
    by (simp add: db_created_eq db0_def)
  have cancelled: "requests db_cancelled 1 =
      Some (sample_request\<lparr>status := ''cancelled'', cancelledAt := Some 1500,
                            cancellationReason := Some ''recovered''\<rparr>)"
    by (simp add: db_cancelled_eq db0_def)
  have active: "requests db_created 1 = Some sample_request" "status sample_request = ''active''"
    by (simp_all add: db_created_eq db0_def sample_request_def)
  show ?thesis
    using absent cancelled active
      respond_transitions [where st = db_created and rid = 2 and sink = True and now = 1000
        and d = 20 and s = "''accepted''" and n = None]
      respond_transitions [where st = db_cancelled and rid = 1 and sink = True and now = 1000
        and d = 20 and s = "''accepted''" and n = None
        and r = "sample_request\<lparr>status := ''cancelled'', cancelledAt := Some 1500,
                                  cancellationReason := Some ''recovered''\<rparr>"]
      respond_transitions [where st = db_created and rid = 1 and sink = True and now = 1000
        and d = 20 and s = "''accepted''" and n = None and r = sample_request]
      respond_transitions [where st = db_created and rid = 1 and sink = True and now = 1000
        and d = 20 and s = "''declined''" and n = None and r = sample_request]
    by simp
qed

lemma length_update_first: "length (update_first P f xs) = length xs"
  by (induction xs) auto

lemma map_donor_update_first:
  "(\<And>x. donor (f x) = donor x) \<Longrightarrow> map donor (update_first P f xs) = map donor xs"
  by (induction xs) auto

lemma find_donor_None: "find (\<lambda>m. donor m = d) ms = None \<longleftrightarrow> d \<notin> donor ` set ms"
  by (induction ms) auto

lemma map_donor_record_response:
  "map donor (record_response now d s n ms) =
     (if d \<in> donor ` set ms then map donor ms else map donor ms @ [d])"
proof (cases "find (\<lambda>m. donor m = d) ms")
  case None
  then have "d \<notin> donor ` set ms" using find_donor_None [of d ms] by simp
  with None show ?thesis by (simp add: record_response_def)
next
  case (Some m)
  then have "d \<in> donor ` set ms" using find_donor_None [of d ms] by simp
  with Some show ?thesis by (simp add: record_response_def map_donor_update_first)
qed

lemma record_response_again:
  "record_response now2 d s2 n2 (record_response now1 d s1 n1 ms) =
     update_first (\<lambda>m. donor m = d)
       (\<lambda>m. m\<lparr>md_status := s2, respondedAt := Some now2, md_notes := n2\<rparr>)
       (record_response now1 d s1 n1 ms)"
proof -
  have "d \<in> set (map donor (record_response now1 d s1 n1 ms))"
    by (simp only: map_donor_record_response) auto
  then have "find (\<lambda>m. donor m = d) (record_response now1 d s1 n1 ms) \<noteq> None"
    by (simp add: find_donor_None)
  then show ?thesis
    by (auto simp add: record_response_def [of now2] split: option.splits)
qed

lemma matchedDonors_apply_response:
  "matchedDonors (apply_response now d s n r) = record_response now d s n (matchedDonors r)"
  by (simp add: apply_response_def Let_def)

lemma status_apply_response_live:
  "status r = ''active'' \<or> status r = ''matched'' \<Longrightarrow>
   status (apply_response now d s n r) = ''active'' \<or>
   status (apply_response now d s n r) = ''matched''"
  by (auto simp add: status_apply_response)

lemma update_first_index:
  "\<exists>x\<in>set xs. P x \<Longrightarrow>
   \<exists>i<length xs. P (xs ! i) \<and> (\<forall>j<i. \<not> P (xs ! j)) \<and> update_first P f xs = xs[i := f (xs ! i)]"
proof (induction xs)
  case Nil
  then show ?case by simp
next
  case (Cons x xs)
  show ?case
  proof (cases "P x")
    case True
    then have "0 < length (x # xs) \<and> P ((x # xs) ! 0) \<and> (\<forall>j<0. \<not> P ((x # xs) ! j)) \<and>
        update_first P f (x # xs) = (x # xs)[0 := f ((x # xs) ! 0)]"
      by simp
    then show ?thesis by blast
  next
    case False
    with Cons.prems have "\<exists>x\<in>set xs. P x" by simp
    from Cons.IH [OF this] obtain i where i: "i < length xs" "P (xs ! i)"
      "\<forall>j<i. \<not> P (xs ! j)" "update_first P f xs = xs[i := f (xs ! i)]"
      by blast
    have "\<forall>j<Suc i. \<not> P ((x # xs) ! j)"
    proof (intro allI impI)
      fix j assume "j < Suc i"
      then show "\<not> P ((x # xs) ! j)" using False i(3) by (cases j) auto
    qed
    with i False have "Suc i < length (x # xs) \<and> P ((x # xs) ! Suc i) \<and>
        (\<forall>j<Suc i. \<not> P ((x # xs) ! j)) \<and>
        update_first P f (x # xs) = (x # xs)[Suc i := f ((x # xs) ! Suc i)]"
      by simp
    then show ?thesis by blast
  qed
qed

lemma record_response_existing:
  assumes "d \<in> donor ` set ms"
  shows "\<exists>i<length ms. donor (ms ! i) = d \<and> (\<forall>j<i. donor (ms ! j) \<noteq> d) \<and>
     record_response now d s n ms =
       ms[i := (ms ! i)\<lparr>md_status := s, respondedAt := Some now, md_notes := n\<rparr>]"
proof -
  from assms have ex: "\<exists>x\<in>set ms. donor x = d" by auto
  from assms have "find (\<lambda>m. donor m = d) ms \<noteq> None" using find_donor_None [of d ms] by simp
  then have "record_response now d s n ms =
      update_first (\<lambda>m. donor m = d)
        (\<lambda>m. m\<lparr>md_status := s, respondedAt := Some now, md_notes := n\<rparr>) ms"
    by (auto simp add: record_response_def)
  with update_first_index [OF ex,
      of "\<lambda>m. m\<lparr>md_status := s, respondedAt := Some now, md_notes := n\<rparr>"]
  show ?thesis by auto
qed

lemma record_response_new:
  assumes "d \<notin> donor ` set ms"
  shows "record_response now d s n ms =
     ms @ [\<lparr>donor = d, md_status = s, matchedAt = now, respondedAt = Some now, md_notes = n\<rparr>]"
proof -
  from assms have "find (\<lambda>m. donor m = d) ms = None" using find_donor_None [of d ms] by simp
  then show ?thesis by (simp add: record_response_def)
qed

lemma record_response_entry:
  "\<exists>i<length (record_response now d s n ms).
     donor (record_response now d s n ms ! i) = d \<and>
     (\<forall>j<i. donor (record_response now d s n ms ! j) \<noteq> d) \<and>
     md_status (record_response now d s n ms ! i) = s \<and>
     respondedAt (record_response now d s n ms ! i) = Some now \<and>
     md_notes (record_response now d s n ms ! i) = n"
proof (cases "d \<in> donor ` set ms")
  case True
  from record_response_existing [OF True, of now s n] obtain i where
    i: "i < length ms" "donor (ms ! i) = d" "\<forall>j<i. donor (ms ! j) \<noteq> d"
    "record_response now d s n ms =
       ms[i := (ms ! i)\<lparr>md_status := s, respondedAt := Some now, md_notes := n\<rparr>]"
    by blast
  then have "i < length (record_response now d s n ms) \<and>
     donor (record_response now d s n ms ! i) = d \<and>
     (\<forall>j<i. donor (record_response now d s n ms ! j) \<noteq> d) \<and>
     md_status (record_response now d s n ms ! i) = s \<and>
     respondedAt (record_response now d s n ms ! i) = Some now \<and>
     md_notes (record_response now d s n ms ! i) = n"
    by simp
  then show ?thesis by blast
next
  case False
  have "\<forall>j<length ms. donor (ms ! j) \<noteq> d"
    using False by (metis imageI nth_mem)
  then have "length ms < length (record_response now d s n ms) \<and>
     donor (record_response now d s n ms ! length ms) = d \<and>
     (\<forall>j<length ms. donor (record_response now d s n ms ! j) \<noteq> d) \<and>
     md_status (record_response now d s n ms ! length ms) = s \<and>
     respondedAt (record_response now d s n ms ! length ms) = Some now \<and>
     md_notes (record_response now d s n ms ! length ms) = n"
    by (simp add: record_response_new [OF False] nth_append)
  then show ?thesis by blast
qed

text \<open>
  C5. On a request that is active or matched, the first response of a donor leaves
  one entry for that donor carrying the status, the response time and the notes (an
  entry rewritten where the donor had one, appended otherwise); a second response of
  the same donor with the same status rewrites exactly that entry (status, respondedAt,
  notes) where it stands: the list keeps its length and its donors, every other entry
  is as it was, and a list with one entry per donor keeps that property.
\<close>

theorem respond_twice:
  assumes "requests st rid = Some r" and "status r = ''active'' \<or> status r = ''matched''"
  shows "\<exists>r1 r2.
     requests (snd (respond sink1 now1 st rid (Some d) s n1)) rid = Some r1 \<and>
     requests (snd (respond sink2 now2 (snd (respond sink1 now1 st rid (Some d) s n1))
                      rid (Some d) s n2)) rid = Some r2 \<and>
     length (matchedDonors r2) = length (matchedDonors r1) \<and>
     map donor (matchedDonors r2) = map donor (matchedDonors r1) \<and>
     (s \<in> set donor_status_enum \<longrightarrow>
        (d \<in> donor ` set (matchedDonors r) \<longrightarrow>
           (\<exists>k<length (matchedDonors r).
              donor (matchedDonors r ! k) = d \<and>
              (\<forall>j<k. donor (matchedDonors r ! j) \<noteq> d) \<and>
              matchedDonors r1 =
                (matchedDonors r)[k := (matchedDonors r ! k)
                   \<lparr>md_status := s, respondedAt := Some now1, md_notes := n1\<rparr>])) \<and>
        (d \<notin> donor ` set (matchedDonors r) \<longrightarrow>
           matchedDonors r1 =
             matchedDonors r @ [\<lparr>donor = d, md_status = s, matchedAt = now1,
                                 respondedAt = Some now1, md_notes = n1\<rparr>]) \<and>
        (\<exists>i<length (matchedDonors r1).
           donor (matchedDonors r1 ! i) = d \<and>
           (\<forall>j<i. donor (matchedDonors r1 ! j) \<noteq> d) \<and>
           md_status (matchedDonors r1 ! i) = s \<and>
           respondedAt (matchedDonors r1 ! i) = Some now1 \<and>
           md_notes (matchedDonors r1 ! i) = n1 \<and>
           matchedDonors r2 =
             (matchedDonors r1)[i := (matchedDonors r1 ! i)
                \<lparr>md_status := s, respondedAt := Some now2, md_notes := n2\<rparr>])) \<and>
     (distinct (map donor (matchedDonors r)) \<longrightarrow>
        distinct (map donor (matchedDonors r1)) \<and> distinct (map donor (matchedDonors r2)))"
proof (cases "s \<in> set donor_status_enum")
  case False
  with assms show ?thesis by (simp add: respond_rejected)
next
  case True
  let ?ms = "matchedDonors r"
  let ?r1 = "apply_response now1 d s n1 r"
  let ?st1 = "snd (respond sink1 now1 st rid (Some d) s n1)"
  let ?r2 = "apply_response now2 d s n2 ?r1"
  let ?ms1 = "record_response now1 d s n1 ?ms"
  let ?ms2 = "record_response now2 d s n2 ?ms1"
  have r1: "requests ?st1 rid = Some ?r1"
    using assms True by (simp add: respond_saved)
  have live: "status ?r1 = ''active'' \<or> status ?r1 = ''matched''"
    using assms(2) by (rule status_apply_response_live)
  have r2: "requests (snd (respond sink2 now2 ?st1 rid (Some d) s n2)) rid = Some ?r2"
    using r1 live True by (simp add: respond_saved)
  have m1: "matchedDonors ?r1 = ?ms1" and m2: "matchedDonors ?r2 = ?ms2"
    by (simp_all add: matchedDonors_apply_response)
  have same: "map donor ?ms2 = map donor ?ms1"
    by (simp add: record_response_again map_donor_update_first)
  then have len: "length ?ms2 = length ?ms1"
    by (metis length_map)
  have old: "d \<in> donor ` set ?ms \<longrightarrow>
      (\<exists>k<length ?ms. donor (?ms ! k) = d \<and> (\<forall>j<k. donor (?ms ! j) \<noteq> d) \<and>
         ?ms1 = ?ms[k := (?ms ! k)\<lparr>md_status := s, respondedAt := Some now1, md_notes := n1\<rparr>])"
    using record_response_existing [of d ?ms now1 s n1] by blast
  have new: "d \<notin> donor ` set ?ms \<longrightarrow>
      ?ms1 = ?ms @ [\<lparr>donor = d, md_status = s, matchedAt = now1,
                      respondedAt = Some now1, md_notes = n1\<rparr>]"
    by (simp add: record_response_new)
  from record_response_entry [of now1 d s n1 ?ms] obtain i where
    i: "i < length ?ms1" "donor (?ms1 ! i) = d" "\<forall>j<i. donor (?ms1 ! j) \<noteq> d"
       "md_status (?ms1 ! i) = s" "respondedAt (?ms1 ! i) = Some now1" "md_notes (?ms1 ! i) = n1"
    by blast
  from i(1,2) have "d \<in> donor ` set ?ms1" by (metis imageI nth_mem)
  from record_response_existing [OF this, of now2 s n2] obtain k where
    k: "k < length ?ms1" "donor (?ms1 ! k) = d" "\<forall>j<k. donor (?ms1 ! j) \<noteq> d"
       "?ms2 = ?ms1[k := (?ms1 ! k)\<lparr>md_status := s, respondedAt := Some now2, md_notes := n2\<rparr>]"
    by blast
  have "k = i"
    using i(2,3) k(2,3) by (metis linorder_neqE_nat)
  with k(4) have upd:
    "?ms2 = ?ms1[i := (?ms1 ! i)\<lparr>md_status := s, respondedAt := Some now2, md_notes := n2\<rparr>]"
    by simp
  have entry: "\<exists>i<length ?ms1.
           donor (?ms1 ! i) = d \<and> (\<forall>j<i. donor (?ms1 ! j) \<noteq> d) \<and>
           md_status (?ms1 ! i) = s \<and> respondedAt (?ms1 ! i) = Some now1 \<and>
           md_notes (?ms1 ! i) = n1 \<and>
           ?ms2 = ?ms1[i := (?ms1 ! i)\<lparr>md_status := s, respondedAt := Some now2, md_notes := n2\<rparr>]"
    using i upd by blast
  have dist: "distinct (map donor ?ms) \<longrightarrow> distinct (map donor ?ms1) \<and> distinct (map donor ?ms2)"
    by (simp add: same) (simp add: map_donor_record_response)
  have "requests ?st1 rid = Some ?r1 \<and>
     requests (snd (respond sink2 now2 ?st1 rid (Some d) s n2)) rid = Some ?r2 \<and>
     length (matchedDonors ?r2) = length (matchedDonors ?r1) \<and>
     map donor (matchedDonors ?r2) = map donor (matchedDonors ?r1) \<and>
     (s \<in> set donor_status_enum \<longrightarrow>
        (d \<in> donor ` set ?ms \<longrightarrow>
           (\<exists>k<length ?ms. donor (?ms ! k) = d \<and> (\<forall>j<k. donor (?ms ! j) \<noteq> d) \<and>
              matchedDonors ?r1 =
                ?ms[k := (?ms ! k)\<lparr>md_status := s, respondedAt := Some now1, md_notes := n1\<rparr>])) \<and>
        (d \<notin> donor ` set ?ms \<longrightarrow>
           matchedDonors ?r1 =
             ?ms @ [\<lparr>donor = d, md_status = s, matchedAt = now1,
                                 respondedAt = Some now1, md_notes = n1\<rparr>]) \<and>
        (\<exists>i<length (matchedDonors ?r1).
           donor (matchedDonors ?r1 ! i) = d \<and>
           (\<forall>j<i. donor (matchedDonors ?r1 ! j) \<noteq> d) \<and>
           md_status (matchedDonors ?r1 ! i) = s \<and>
           respondedAt (matchedDonors ?r1 ! i) = Some now1 \<and>
           md_notes (matchedDonors ?r1 ! i) = n1 \<and>
           matchedDonors ?r2 =
             (matchedDonors ?r1)[i := (matchedDonors ?r1 ! i)
                \<lparr>md_status := s, respondedAt := Some now2, md_notes := n2\<rparr>])) \<and>
     (distinct (map donor ?ms) \<longrightarrow>
        distinct (map donor (matchedDonors ?r1)) \<and> distinct (map donor (matchedDonors ?r2)))"
    unfolding m1 m2 using r1 r2 len same old new entry dist
    by (intro conjI impI) blast+
  then show ?thesis by blast
qed

theorem respond_twice_witness:
  "requests db_created 1 = Some sample_request \<and>
   (status sample_request = ''active'' \<or> status sample_request = ''matched'') \<and>
   (\<exists>r1 r2.
      requests (snd (respond True 1000 db_created 1 (Some 20) ''accepted'' None)) 1 = Some r1 \<and>
      requests (snd (respond True 2000 (snd (respond True 1000 db_created 1 (Some 20)
                       ''accepted'' None)) 1 (Some 20) ''accepted'' (Some ''on my way''))) 1 =
        Some r2 \<and>
      matchedDonors r1 = [sample_entry] \<and>
      matchedDonors r2 =
        [sample_entry\<lparr>respondedAt := Some 2000, md_notes := Some ''on my way''\<rparr>] \<and>
      length (matchedDonors r2) = length (matchedDonors r1))"
proof -
  have h1: "requests db_created 1 = Some sample_request"
    by (simp add: db_created_eq db0_def)
  have h2: "status sample_request = ''active'' \<or> status sample_request = ''matched''"
    by (simp add: sample_request_def)
  have first: "requests (snd (respond True 1000 db_created 1 (Some 20) ''accepted'' None)) 1 =
      Some (sample_request\<lparr>status := ''matched'', matchedDonors := [sample_entry]\<rparr>)"
    using db_accepted_eq by (simp add: db_accepted_def db0_def)
  have enum: "''accepted'' \<in> set donor_status_enum"
    by (simp add: donor_status_enum_def)
  from respond_twice [OF h1 h2, where ?sink1.0 = True and ?now1.0 = 1000 and d = 20
      and s = "''accepted''" and ?n1.0 = None and ?sink2.0 = True and ?now2.0 = 2000
      and ?n2.0 = "Some ''on my way''"] enum
  obtain r1 r2 i where r:
    "requests (snd (respond True 1000 db_created 1 (Some 20) ''accepted'' None)) 1 = Some r1"
    "requests (snd (respond True 2000 (snd (respond True 1000 db_created 1 (Some 20)
                       ''accepted'' None)) 1 (Some 20) ''accepted'' (Some ''on my way''))) 1 =
       Some r2"
    "length (matchedDonors r2) = length (matchedDonors r1)"
    "i < length (matchedDonors r1)"
    "matchedDonors r2 = (matchedDonors r1)[i := (matchedDonors r1 ! i)
        \<lparr>md_status := ''accepted'', respondedAt := Some 2000, md_notes := Some ''on my way''\<rparr>]"
    by blast
  from r(1) first have m1: "matchedDonors r1 = [sample_entry]" by simp
  with r(4) have "i = 0" by simp
  with r(5) m1 have m2: "matchedDonors r2 =
        [sample_entry\<lparr>respondedAt := Some 2000, md_notes := Some ''on my way''\<rparr>]"
    by (simp add: sample_entry_def)
  from h1 h2 r(1,2,3) m1 m2 show ?thesis by blast
qed

text \<open>
  C3 (as amended). When the notification cannot be saved after the request has been
  written, RecordDonorResponse keeps the written request (nothing is rolled back), but
  answers 500 instead of reporting success.
\<close>

theorem respond_notification_failure:
  assumes "requests st rid = Some r" and "status r = ''active'' \<or> status r = ''matched''"
    and "s \<in> set donor_status_enum"
    and "notification_save sink (donor_response_notification rid (apply_response now d s n r) d s)
           (st\<lparr>requests := (requests st)(rid \<mapsto> apply_response now d s n r)\<rparr>) = None"
  shows "respond sink now st rid (Some d) s n =
           (Error 500 ''Server error'',
            st\<lparr>requests := (requests st)(rid \<mapsto> apply_response now d s n r)\<rparr>)"
  using assms by (auto simp add: respond_def Let_def)

theorem respond_notification_failure_witness:
  "requests db_created 1 = Some sample_request \<and>
   (status sample_request = ''active'' \<or> status sample_request = ''matched'') \<and>
   ''declined'' \<in> set donor_status_enum \<and>
   notification_save False
     (donor_response_notification 1 (apply_response 1000 20 ''declined'' None sample_request) 20 ''declined'')
     (db_created\<lparr>requests := (requests db_created)(1 \<mapsto> apply_response 1000 20 ''declined'' None sample_request)\<rparr>) = None \<and>
   respond False 1000 db_created 1 (Some 20) ''declined'' None =
    (Error 500 ''Server error'',
     db_created\<lparr>requests := (requests db_created)(1 \<mapsto> apply_response 1000 20 ''declined'' None sample_request)\<rparr>)"
proof -
  have h1: "requests db_created 1 = Some sample_request"
    by (simp add: db_created_eq db0_def)
  have h2: "status sample_request = ''active'' \<or> status sample_request = ''matched''"
    by (simp add: sample_request_def)
  have h3: "''declined'' \<in> set donor_status_enum" by (simp add: donor_status_enum_def)
  have h4: "notification_save False
     (donor_response_notification 1 (apply_response 1000 20 ''declined'' None sample_request) 20 ''declined'')
     (db_created\<lparr>requests := (requests db_created)(1 \<mapsto> apply_response 1000 20 ''declined'' None sample_request)\<rparr>) = None"
    by (simp add: notification_save_def)
  from respond_notification_failure [OF h1 h2 h3 h4] h1 h2 h3 h4 show ?thesis by simp
qed

text \<open>
  The claim as stated fails: with a notification store that rejects the write, the
  acceptance of request 1 by donor 20 is stored and the reply is 500.
\<close>

theorem respond_notification_failure_counterexample:
  "respond False 1000 db_created 1 (Some 20) ''accepted'' None =
     (Error 500 ''Server error'', db_accepted) \<and>
   requests db_created 1 = Some sample_request \<and>
   requests db_accepted 1 =
     Some (sample_request\<lparr>status := ''matched'', matchedDonors := [sample_entry]\<rparr>)"
  unfolding db_accepted_eq unfolding db_created_eq
  by (simp add: sample_defs respond_defs)

section \<open>The invariant of matched requests\<close>

lemma matched_invariant_upd:
  "matched_invariant st \<Longrightarrow> matched_has_accepted r \<Longrightarrow>
   matched_invariant (st\<lparr>requests := (requests st)(rid \<mapsto> r)\<rparr>)"
  by (simp add: matched_invariant_def)

lemma matched_invariant_requests:
  "requests st' = requests st \<Longrightarrow> matched_invariant st' = matched_invariant st"
  by (simp add: matched_invariant_def)

lemma create_invariant: "matched_invariant st \<Longrightarrow> matched_invariant (snd (create st newId u b))"
  by (auto simp add: create_def Let_def matched_has_accepted_def
        intro!: matched_invariant_upd split: option.splits)

lemma complete_invariant: "matched_invariant st \<Longrightarrow> matched_invariant (snd (complete now st rid u))"
  by (auto simp add: complete_def Let_def matched_has_accepted_def matched_invariant_def
        split: option.splits)

lemma cancel_invariant: "matched_invariant st \<Longrightarrow> matched_invariant (snd (cancel now st rid u reason))"
  by (auto simp add: cancel_def Let_def matched_has_accepted_def matched_invariant_def
        split: option.splits if_splits)

lemma update_first_hits:
  "\<exists>x\<in>set ms. P x \<Longrightarrow> \<exists>x\<in>set ms. P x \<and> f x \<in> set (update_first P f ms)"
  by (induction ms) auto

lemma accepted_record_response:
  "list_ex (\<lambda>m. md_status m = ''accepted'') (record_response now d ''accepted'' n ms)"
proof (cases "find (\<lambda>m. donor m = d) ms")
  case None
  then show ?thesis by (simp add: record_response_def list_ex_iff)
next
  case (Some e)
  then have "\<exists>x\<in>set ms. donor x = d" using find_donor_None [of d ms] by auto
  from update_first_hits [OF this,
      of "\<lambda>m. m\<lparr>md_status := ''accepted'', respondedAt := Some now, md_notes := n\<rparr>"]
  obtain x where "x\<lparr>md_status := ''accepted'', respondedAt := Some now, md_notes := n\<rparr>
      \<in> set (update_first (\<lambda>m. donor m = d)
           (\<lambda>m. m\<lparr>md_status := ''accepted'', respondedAt := Some now, md_notes := n\<rparr>) ms)"
    by blast
  then have "\<exists>m\<in>set (update_first (\<lambda>m. donor m = d)
           (\<lambda>m. m\<lparr>md_status := ''accepted'', respondedAt := Some now, md_notes := n\<rparr>) ms).
       md_status m = ''accepted''"
    by (rule rev_bexI) simp
  with Some show ?thesis
    by (simp add: record_response_def list_ex_iff)
qed

lemma other_accepted_record_response:
  assumes "list_ex (\<lambda>m. donor m \<noteq> d \<and> md_status m = ''accepted'') ms"
  shows "list_ex (\<lambda>m. md_status m = ''accepted'') (record_response now d s n ms)"
proof -
  have "\<And>f. (\<exists>m\<in>set ms. donor m \<noteq> d \<and> md_status m = ''accepted'') \<Longrightarrow>
      \<exists>m\<in>set (update_first (\<lambda>m. donor m = d) f ms). md_status m = ''accepted''"
    by (induction ms) auto
  with assms show ?thesis
    by (auto simp add: record_response_def list_ex_iff split: option.splits)
qed

lemma respond_invariant:
  assumes "matched_invariant st"
    and "s = ''accepted'' \<or>
         (\<forall>r d. requests st rid = Some r \<and> u = Some d \<and> status r = ''matched'' \<longrightarrow>
            list_ex (\<lambda>m. donor m \<noteq> d \<and> md_status m = ''accepted'') (matchedDonors r))"
  shows "matched_invariant (snd (respond sink now st rid u s n))"
proof (cases u)
  case None
  with assms(1) show ?thesis by (simp add: respond_def)
next
  case (Some d)
  show ?thesis
  proof (cases "requests st rid")
    case None
    with Some assms(1) show ?thesis by (simp add: respond_def)
  next
    case (Some r)
    note r = this
    show ?thesis
    proof (cases "(status r = ''active'' \<or> status r = ''matched'') \<and> s \<in> set donor_status_enum")
      case False
      with r \<open>u = Some d\<close> assms(1) show ?thesis by (auto simp add: respond_def Let_def)
    next
      case True
      have keep: "matched_has_accepted (apply_response now d s n r)"
      proof (cases "s = ''accepted''")
        case True
        then show ?thesis
          by (simp add: matched_has_accepted_def apply_response_def Let_def accepted_record_response)
      next
        case False
        with assms(2) r \<open>u = Some d\<close>
        have "status r = ''matched'' \<longrightarrow>
            list_ex (\<lambda>m. donor m \<noteq> d \<and> md_status m = ''accepted'') (matchedDonors r)"
          by simp
        with False show ?thesis
          by (auto simp add: matched_has_accepted_def apply_response_def Let_def
                other_accepted_record_response)
      qed
      have "requests (snd (respond sink now st rid (Some d) s n)) =
           (requests st)(rid \<mapsto> apply_response now d s n r)"
        using r True by (simp add: respond_saved)
      then have "matched_invariant (snd (respond sink now st rid (Some d) s n)) =
           matched_invariant (st\<lparr>requests := (requests st)(rid \<mapsto> apply_response now d s n r)\<rparr>)"
        by (simp add: matched_invariant_def)
      with keep assms(1) \<open>u = Some d\<close> show ?thesis by (simp add: matched_invariant_upd)
    qed
  qed
qed


lemma no_accepted_record_response:
  assumes d: "distinct (map donor ms)"
    and other: "\<not> list_ex (\<lambda>m. donor m \<noteq> d \<and> md_status m = ''accepted'') ms"
    and s: "s \<noteq> ''accepted''"
  shows "\<not> list_ex (\<lambda>m. md_status m = ''accepted'') (record_response now d s n ms)"
proof (cases "d \<in> donor ` set ms")
  case False
  with other have "\<forall>m\<in>set ms. md_status m \<noteq> ''accepted''"
    by (auto simp add: list_ex_iff)
  with s show ?thesis by (simp add: record_response_new [OF False] list_ex_iff)
next
  case True
  from record_response_existing [OF True, of now s n] obtain i where
    i: "i < length ms" "donor (ms ! i) = d"
    "record_response now d s n ms =
       ms[i := (ms ! i)\<lparr>md_status := s, respondedAt := Some now, md_notes := n\<rparr>]"
    by blast
  have "md_status m \<noteq> ''accepted''"
    if m: "m \<in> set (ms[i := (ms ! i)\<lparr>md_status := s, respondedAt := Some now, md_notes := n\<rparr>])"
    for m
  proof -
    from m obtain k where k: "k < length ms"
      "m = ms[i := (ms ! i)\<lparr>md_status := s, respondedAt := Some now, md_notes := n\<rparr>] ! k"
      by (auto simp add: in_set_conv_nth)
    show ?thesis
    proof (cases "k = i")
      case True
      with k i(1) s show ?thesis by simp
    next
      case False
      with k have mk: "m = ms ! k" by simp
      have "donor (ms ! k) \<noteq> d"
      proof
        assume "donor (ms ! k) = d"
        with i(2) have "map donor ms ! k = map donor ms ! i" using k(1) i(1) by simp
        moreover have "k < length (map donor ms)" "i < length (map donor ms)"
          using k(1) i(1) by simp_all
        ultimately have "k = i" using d by (simp only: nth_eq_iff_index_eq)
        with False show False by simp
      qed
      with other k(1) mk show ?thesis by (auto simp add: list_ex_iff)
    qed
  qed
  with i(3) show ?thesis by (auto simp add: list_ex_iff)
qed

lemma respond_invariant_iff:
  assumes inv: "matched_invariant st" and r: "requests st rid = Some r"
    and d: "distinct (map donor (matchedDonors r))"
  shows "matched_invariant (snd (respond sink now st rid (Some d) s n)) \<longleftrightarrow>
     \<not> (status r = ''matched'' \<and> s \<in> set donor_status_enum \<and> s \<noteq> ''accepted'' \<and>
        \<not> list_ex (\<lambda>m. donor m \<noteq> d \<and> md_status m = ''accepted'') (matchedDonors r))"
proof (cases "status r = ''matched'' \<and> s \<in> set donor_status_enum \<and> s \<noteq> ''accepted'' \<and>
        \<not> list_ex (\<lambda>m. donor m \<noteq> d \<and> md_status m = ''accepted'') (matchedDonors r)")
  case True
  then have saved: "requests (snd (respond sink now st rid (Some d) s n)) rid =
      Some (apply_response now d s n r)"
    using r by (simp add: respond_saved)
  from True have "status (apply_response now d s n r) = ''matched''"
    by (simp add: status_apply_response)
  moreover from True d have
    "\<not> list_ex (\<lambda>m. md_status m = ''accepted'') (matchedDonors (apply_response now d s n r))"
    by (simp add: matchedDonors_apply_response no_accepted_record_response)
  ultimately have "\<not> matched_has_accepted (apply_response now d s n r)"
    by (simp add: matched_has_accepted_def)
  with saved have "\<not> matched_invariant (snd (respond sink now st rid (Some d) s n))"
    unfolding matched_invariant_def by blast
  with True show ?thesis by simp
next
  case False
  have "matched_invariant (snd (respond sink now st rid (Some d) s n))"
  proof (cases "s \<in> set donor_status_enum")
    case False
    with r inv show ?thesis by (simp add: respond_rejected)
  next
    case True
    with False r have "s = ''accepted'' \<or>
         (\<forall>r' d'. requests st rid = Some r' \<and> Some d = Some d' \<and> status r' = ''matched'' \<longrightarrow>
            list_ex (\<lambda>m. donor m \<noteq> d' \<and> md_status m = ''accepted'') (matchedDonors r'))"
      by auto
    with inv show ?thesis by (rule respond_invariant)
  qed
  with False show ?thesis by simp
qed


text \<open>
  C1 (as amended). Creating, completing and cancelling a request and recording an
  accepted response preserve the invariant that a matched request has an accepted
  entry; recording any other response preserves it whenever, on a matched request, an
  entry of another donor is accepted. On a request with one entry per donor a response
  breaks the invariant exactly when the request is matched, the status is one the
  schema admits other than accepted, and no entry of another donor is accepted.
\<close>

theorem matched_invariant_preserved:
  assumes "matched_invariant st"
  shows "matched_invariant (snd (create st newId u b)) \<and>
         matched_invariant (snd (complete now st rid u)) \<and>
         matched_invariant (snd (cancel now st rid u reason)) \<and>
         matched_invariant (snd (respond sink now st rid u ''accepted'' n)) \<and>
         ((\<forall>r d. requests st rid = Some r \<and> u = Some d \<and> status r = ''matched'' \<longrightarrow>
             list_ex (\<lambda>m. donor m \<noteq> d \<and> md_status m = ''accepted'') (matchedDonors r)) \<longrightarrow>
          matched_invariant (snd (respond sink now st rid u s n))) \<and>
         (requests st rid = Some r \<and> distinct (map donor (matchedDonors r)) \<longrightarrow>
            (matched_invariant (snd (respond sink now st rid (Some d) s n)) \<longleftrightarrow>
             \<not> (status r = ''matched'' \<and> s \<in> set donor_status_enum \<and> s \<noteq> ''accepted'' \<and>
                \<not> list_ex (\<lambda>m. donor m \<noteq> d \<and> md_status m = ''accepted'')
                     (matchedDonors r))))"
proof -
  have "requests st rid = Some r \<and> distinct (map donor (matchedDonors r)) \<longrightarrow>
            (matched_invariant (snd (respond sink now st rid (Some d) s n)) \<longleftrightarrow>
             \<not> (status r = ''matched'' \<and> s \<in> set donor_status_enum \<and> s \<noteq> ''accepted'' \<and>
                \<not> list_ex (\<lambda>m. donor m \<noteq> d \<and> md_status m = ''accepted'')
                     (matchedDonors r)))"
    using assms respond_invariant_iff by blast
  moreover have "(\<forall>r d. requests st rid = Some r \<and> u = Some d \<and> status r = ''matched'' \<longrightarrow>
             list_ex (\<lambda>m. donor m \<noteq> d \<and> md_status m = ''accepted'') (matchedDonors r)) \<longrightarrow>
          matched_invariant (snd (respond sink now st rid u s n))"
    using assms by (simp add: respond_invariant)
  moreover have "matched_invariant (snd (respond sink now st rid u ''accepted'' n))"
    using assms by (simp add: respond_invariant)
  ultimately show ?thesis
    using assms create_invariant complete_invariant cancel_invariant by blast
qed

theorem matched_invariant_preserved_witness:
  "matched_invariant db_two_accepted \<and>
   matched_invariant (snd (create db_two_accepted 2 (Some 10) sample_body)) \<and>
   matched_invariant (snd (complete 3000 db_two_accepted 1 (Some 10))) \<and>
   matched_invariant (snd (cancel 3000 db_two_accepted 1 (Some 10) None)) \<and>
   matched_invariant (snd (respond True 1200 db_two_accepted 1 (Some 20) ''accepted'' None)) \<and>
   matched_invariant (snd (respond True 1200 db_two_accepted 1 (Some 20) ''declined'' None)) \<and>
   matched_invariant db_accepted \<and>
   matched_invariant (snd (respond True 2000 db_accepted 1 (Some 20) ''bogus'' None)) \<and>
   \<not> matched_invariant (snd (respond True 2000 db_accepted 1 (Some 20) ''pending'' None))"
proof -
  have inv: "matched_invariant db_two_accepted"
    by (simp add: db_two_accepted_eq matched_invariant_def matched_has_accepted_def sample_defs)
  have other: "\<forall>r d. requests db_two_accepted 1 = Some r \<and> Some 20 = Some d \<and> status r = ''matched'' \<longrightarrow>
             list_ex (\<lambda>m. donor m \<noteq> d \<and> md_status m = ''accepted'') (matchedDonors r)"
    by (simp add: db_two_accepted_eq sample_defs)
  have inv1: "matched_invariant db_accepted"
    by (simp add: db_accepted_eq matched_invariant_def matched_has_accepted_def sample_defs)
  have r1: "requests db_accepted 1 =
      Some (sample_request\<lparr>status := ''matched'', matchedDonors := [sample_entry]\<rparr>)"
    by (simp add: db_accepted_eq db0_def)
  have d1: "distinct (map donor (matchedDonors
      (sample_request\<lparr>status := ''matched'', matchedDonors := [sample_entry]\<rparr>)))"
    by simp
  have bogus: "matched_invariant (snd (respond True 2000 db_accepted 1 (Some 20) ''bogus'' None))"
    using r1 d1
      matched_invariant_preserved [OF inv1, where rid = 1 and d = 20 and sink = True
        and now = 2000 and n = None and s = "''bogus''"
        and r = "sample_request\<lparr>status := ''matched'', matchedDonors := [sample_entry]\<rparr>"]
    by (simp add: donor_status_enum_def)
  have pending:
    "\<not> matched_invariant (snd (respond True 2000 db_accepted 1 (Some 20) ''pending'' None))"
    using r1 d1
      matched_invariant_preserved [OF inv1, where rid = 1 and d = 20 and sink = True
        and now = 2000 and n = None and s = "''pending''"
        and r = "sample_request\<lparr>status := ''matched'', matchedDonors := [sample_entry]\<rparr>"]
    by (simp add: donor_status_enum_def sample_entry_def)
  from inv other
    matched_invariant_preserved [OF inv, where newId = 2 and u = "Some 10" and b = sample_body
      and now = 3000 and rid = 1 and reason = None]
    matched_invariant_preserved [OF inv, where u = "Some 20" and rid = 1 and sink = True
      and now = 1200 and n = None and s = "''declined''"]
    inv1 bogus pending
  show ?thesis by blast
qed

text \<open>
  The claim as stated fails: after donor 20, the only accepted donor of request 1,
  declines, the request is still matched and has no accepted entry.
\<close>

theorem matched_invariant_counterexample:
  "matched_invariant db_accepted \<and>
   \<not> matched_invariant (snd (respond True 2000 db_accepted 1 (Some 20) ''declined'' None))"
proof
  show "matched_invariant db_accepted"
    by (simp add: db_accepted_eq matched_invariant_def matched_has_accepted_def sample_defs)
  have "requests db_declined 1 = Some (sample_request\<lparr>status := ''matched'',
        matchedDonors := [sample_entry\<lparr>md_status := ''declined'', respondedAt := Some 2000\<rparr>]\<rparr>)"
    by (simp add: db_declined_eq db0_def)
  moreover have "\<not> matched_has_accepted (sample_request\<lparr>status := ''matched'',
        matchedDonors := [sample_entry\<lparr>md_status := ''declined'', respondedAt := Some 2000\<rparr>]\<rparr>)"
    by (simp add: matched_has_accepted_def)
  ultimately have "\<not> matched_invariant db_declined"
    unfolding matched_invariant_def by blast
  then show "\<not> matched_invariant (snd (respond True 2000 db_accepted 1 (Some 20) ''declined'' None))"
    by (simp add: db_declined_def)
qed

section \<open>CompleteRequest: properties\<close>

lemma map_update_absent:
  "i \<notin> uid ` set us \<Longrightarrow> map (\<lambda>x. if uid x = i then f x else x) us = us"
  by (induction us) auto

lemma findByIdAndUpdate_distinct:
  "distinct (map uid us) \<Longrightarrow>
   findByIdAndUpdate i f us = map (\<lambda>x. if uid x = i then f x else x) us"
  unfolding findByIdAndUpdate_def
  by (induction us) (auto simp add: map_update_absent)

text \<open>
  C2 (as amended). CompleteRequest answers 404 when the request is absent, 403 when the
  acting user is neither the owning patient nor a donor with an accepted entry, and 400
  when that check passes and the status is not matched. On success the stored request
  is completed with the completion time and its entries are left as they were; the
  user the first accepted entry names gets the donation date and becomes unavailable,
  every other user is unchanged, and when no entry is accepted no user changes.
\<close>

theorem complete_outcomes:
  "(requests st rid = None \<longrightarrow>
      complete now st rid (Some u) = (Error 404 ''Request not found'', st)) \<and>
   (requests st rid = Some r \<and> patient r \<noteq> u \<and>
    \<not> list_ex (\<lambda>m. donor m = u \<and> md_status m = ''accepted'') (matchedDonors r) \<longrightarrow>
      complete now st rid (Some u) =
        (Error 403 ''Not authorized to complete this request'', st)) \<and>
   (requests st rid = Some r \<and>
    (patient r = u \<or> list_ex (\<lambda>m. donor m = u \<and> md_status m = ''accepted'') (matchedDonors r)) \<and>
    status r \<noteq> ''matched'' \<longrightarrow>
      complete now st rid (Some u) = (Error 400 ''Request is not in matched status'', st)) \<and>
   (requests st rid = Some r \<and>
    (patient r = u \<or> list_ex (\<lambda>m. donor m = u \<and> md_status m = ''accepted'') (matchedDonors r)) \<and>
    status r = ''matched'' \<longrightarrow>
      fst (complete now st rid (Some u)) =
        Json 200 (r\<lparr>status := ''completed'', completedAt := Some now\<rparr>) \<and>
      requests (snd (complete now st rid (Some u))) =
        (requests st)(rid \<mapsto> r\<lparr>status := ''completed'', completedAt := Some now\<rparr>) \<and>
      notifications (snd (complete now st rid (Some u))) = notifications st \<and>
      users (snd (complete now st rid (Some u))) =
        (case find (\<lambda>m. md_status m = ''accepted'') (matchedDonors r) of
           None \<Rightarrow> users st
         | Some m \<Rightarrow> findByIdAndUpdate (donor m)
             (\<lambda>x. x\<lparr>lastDonationDate := Some now, isAvailable := False\<rparr>) (users st)) \<and>
      (distinct (map uid (users st)) \<longrightarrow>
         users (snd (complete now st rid (Some u))) =
           map (\<lambda>x. if Some (uid x) =
                        map_option donor (find (\<lambda>m. md_status m = ''accepted'') (matchedDonors r))
                     then x\<lparr>lastDonationDate := Some now, isAvailable := False\<rparr> else x)
             (users st)))"
  by (auto simp add: complete_def Let_def findByIdAndUpdate_distinct split: option.splits)

theorem complete_outcomes_witness:
  "complete 3000 db_accepted 2 (Some 20) = (Error 404 ''Request not found'', db_accepted) \<and>
   complete 3000 db_accepted 1 (Some 30) =
     (Error 403 ''Not authorized to complete this request'', db_accepted) \<and>
   complete 3000 db_created 1 (Some 10) =
     (Error 400 ''Request is not in matched status'', db_created) \<and>
   fst (complete 3000 db_accepted 1 (Some 20)) =
     Json 200 (sample_request\<lparr>status := ''matched'', matchedDonors := [sample_entry],
                               status := ''completed'', completedAt := Some 3000\<rparr>) \<and>
   users (snd (complete 3000 db_accepted 1 (Some 20))) =
     [sample_donor\<lparr>lastDonationDate := Some 3000, isAvailable := False\<rparr>]"
proof -
  have absent: "requests db_accepted 2 = None"
    by (simp add: db_accepted_eq db0_def)
  have matched: "requests db_accepted 1 =
      Some (sample_request\<lparr>status := ''matched'', matchedDonors := [sample_entry]\<rparr>)"
    by (simp add: db_accepted_eq db0_def)
  have active: "requests db_created 1 = Some sample_request"
    by (simp add: db_created_eq db0_def)
  have us: "users db_accepted = [sample_donor]"
    by (simp add: db_accepted_eq db0_def)
  show ?thesis
    using absent matched active us
      complete_outcomes [where st = db_accepted and rid = 2 and now = 3000 and u = 20]
      complete_outcomes [where st = db_accepted and rid = 1 and now = 3000 and u = 30
        and r = "sample_request\<lparr>status := ''matched'', matchedDonors := [sample_entry]\<rparr>"]
      complete_outcomes [where st = db_created and rid = 1 and now = 3000 and u = 10
        and r = sample_request]
      complete_outcomes [where st = db_accepted and rid = 1 and now = 3000 and u = 20
        and r = "sample_request\<lparr>status := ''matched'', matchedDonors := [sample_entry]\<rparr>"]
    by (simp add: sample_request_def sample_entry_def sample_donor_def findByIdAndUpdate_def)
qed

text \<open>
  The claim as stated fails: on the matched request 1 whose only donor has declined,
  completion by the owning patient succeeds, although no accepted donor exists to be
  the completing donor, and the donor's record keeps its empty donation date and its
  availability.
\<close>

theorem complete_counterexample:
  "complete 3000 db_declined 1 (Some 10) =
     (Json 200 (sample_request\<lparr>status := ''completed'',
        matchedDonors := [sample_entry\<lparr>md_status := ''declined'', respondedAt := Some 2000\<rparr>],
        completedAt := Some 3000\<rparr>),
      db0\<lparr>requests := [1 \<mapsto> sample_request\<lparr>status := ''completed'',
        matchedDonors := [sample_entry\<lparr>md_status := ''declined'', respondedAt := Some 2000\<rparr>],
        completedAt := Some 3000\<rparr>]\<rparr>) \<and>
   users db0 = [sample_donor] \<and> lastDonationDate sample_donor = None \<and> isAvailable sample_donor"
  unfolding db_declined_eq
  by (simp add: sample_defs complete_def Let_def)

text \<open>
  C10. On a matched request without an accepted entry, completion by the owning
  patient succeeds: the request is stored as completed with the completion time, and
  the user collection is unchanged.
\<close>

theorem complete_without_accepted_donor:
  assumes "requests st rid = Some r" and "status r = ''matched''"
    and "\<not> list_ex (\<lambda>m. md_status m = ''accepted'') (matchedDonors r)"
    and "patient r = u"
  shows "complete now st rid (Some u) =
           (Json 200 (r\<lparr>status := ''completed'', completedAt := Some now\<rparr>),
            st\<lparr>requests := (requests st)(rid \<mapsto>
                   r\<lparr>status := ''completed'', completedAt := Some now\<rparr>)\<rparr>) \<and>
         users (snd (complete now st rid (Some u))) = users st"
proof -
  have "find (\<lambda>m. md_status m = ''accepted'') (matchedDonors r) = None"
    using assms(3) by (simp add: find_None_iff list_ex_iff)
  with assms have "complete now st rid (Some u) =
           (Json 200 (r\<lparr>status := ''completed'', completedAt := Some now\<rparr>),
            st\<lparr>requests := (requests st)(rid \<mapsto>
                   r\<lparr>status := ''completed'', completedAt := Some now\<rparr>)\<rparr>)"
    by (simp add: complete_def Let_def)
  then show ?thesis by simp
qed

theorem complete_without_accepted_donor_witness:
  "requests db_declined 1 =
     Some (sample_request\<lparr>status := ''matched'',
        matchedDonors := [sample_entry\<lparr>md_status := ''declined'', respondedAt := Some 2000\<rparr>]\<rparr>) \<and>
   fst (complete 5000 db_declined 1 (Some 10)) =
     Json 200 (sample_request\<lparr>status := ''completed'',
        matchedDonors := [sample_entry\<lparr>md_status := ''declined'', respondedAt := Some 2000\<rparr>],
        completedAt := Some 5000\<rparr>) \<and>
   users (snd (complete 5000 db_declined 1 (Some 10))) = users db_declined"
proof -
  let ?r = "sample_request\<lparr>status := ''matched'',
        matchedDonors := [sample_entry\<lparr>md_status := ''declined'', respondedAt := Some 2000\<rparr>]\<rparr>"
  have h1: "requests db_declined 1 = Some ?r"
    by (simp add: db_declined_eq db0_def)
  have h2: "status ?r = ''matched''" by simp
  have h3: "\<not> list_ex (\<lambda>m. md_status m = ''accepted'') (matchedDonors ?r)" by simp
  have h4: "patient ?r = 10" by (simp add: sample_request_def)
  from complete_without_accepted_donor [OF h1 h2 h3 h4, of 5000] h1
  show ?thesis by simp
qed

section \<open>CancelRequest: properties\<close>

text \<open>
  C7 (as amended). CancelRequest gives one and the same 404 reply, leaving the store
  as it was, when the request is absent, when it belongs to another patient, and when
  its status is neither active nor matched; otherwise it stores the request as
  cancelled with the cancellation time and the reason.
\<close>

theorem cancel_outcomes:
  "cancel now st rid (Some u) reason =
     (case requests st rid of
        None \<Rightarrow> (Error 404 ''Request not found or cannot be cancelled'', st)
      | Some r \<Rightarrow>
          if patient r = u \<and> (status r = ''active'' \<or> status r = ''matched'')
          then (Json 200 (r\<lparr>status := ''cancelled'', cancelledAt := Some now, cancellationReason := reason\<rparr>),
                st\<lparr>requests := (requests st)(rid \<mapsto> r\<lparr>status := ''cancelled'', cancelledAt := Some now, cancellationReason := reason\<rparr>)\<rparr>)
          else (Error 404 ''Request not found or cannot be cancelled'', st))"
  by (auto simp add: cancel_def split: option.splits)

theorem cancel_outcomes_witness:
  "cancel 1500 db_created 1 (Some 10) (Some ''recovered'') =
     (Json 200 (sample_request\<lparr>status := ''cancelled'', cancelledAt := Some 1500,
                                cancellationReason := Some ''recovered''\<rparr>),
      db_cancelled) \<and>
   cancel 1500 db_created 1 (Some 11) None =
     (Error 404 ''Request not found or cannot be cancelled'', db_created) \<and>
   cancel 1600 db_cancelled 1 (Some 10) None =
     (Error 404 ''Request not found or cannot be cancelled'', db_cancelled)"
  using cancel_outcomes [of 1500 db_created 1 10 "Some ''recovered''"]
    cancel_outcomes [of 1500 db_created 1 11 None]
    cancel_outcomes [of 1600 db_cancelled 1 10 None]
  by (simp add: db_cancelled_eq) (simp add: db_created_eq db0_def sample_request_def)

text \<open>
  The claim as stated fails: cancelling the completed request 1 by its owner and
  cancelling the absent request 2 get the same reply, so the caller cannot tell an
  illegal state from a missing request.
\<close>

theorem cancel_counterexample:
  "status (the (requests db_completed 1)) = ''completed'' \<and>
   patient (the (requests db_completed 1)) = 10 \<and>
   requests db_completed 2 = None \<and>
   fst (cancel 4000 db_completed 1 (Some 10) None) = Error 404 ''Request not found or cannot be cancelled'' \<and>
   fst (cancel 4000 db_completed 2 (Some 10) None) = Error 404 ''Request not found or cannot be cancelled''"
  by (simp add: db_completed_eq cancel_def sample_defs)


section \<open>Donor search: properties\<close>







lemma available_missing_origin:
  "available castIn acceptsNear geo getDistance now st bloodType_q None lng_q radius_q =
     Error 400 ''Latitude and longitude are required''"
  "available castIn acceptsNear geo getDistance now st bloodType_q lat_q None radius_q =
     Error 400 ''Latitude and longitude are required''"
  by (simp_all add: available_def split: option.splits)

lemma available_refused:
  "\<not> acceptsNear (lng, lat) ((case radius_q of None \<Rightarrow> 50 | Some r \<Rightarrow> r) * 1000) \<Longrightarrow>
   available castIn acceptsNear geo getDistance now st bloodType_q (Some lat) (Some lng) radius_q =
     Error 500 ''Server error''"
  by (simp add: available_def Let_def split: option.splits lookup_result.splits)




end
